theory Spec2Isabelle
  imports Complex_Main
begin

section \<open>Strings and values of the client\<close>

text \<open>
  A JavaScript string is a sequence of UTF-16 code units. The strings this development
  reads (severity labels, file names, messages) are modelled as \<^typ>\<open>string\<close>, one
  \<^typ>\<open>char\<close> per code unit below 256, so a letter with an accent is one character
  (\<open>CHR 0xE1\<close> is a-acute).

  \<open>String.prototype.toLowerCase\<close> on that range maps \<open>A..Z\<close> and the capital letters
  \<open>0xC0..0xDE\<close> (except the multiplication sign \<open>0xD7\<close>) to the code unit 32 above and
  leaves every other code unit alone.
\<close>

definition lowerChar :: "char \<Rightarrow> char" where
  "lowerChar c =
     (let n = (of_char c :: nat)
      in if (65 \<le> n \<and> n \<le> 90) \<or> (192 \<le> n \<and> n \<le> 222 \<and> n \<noteq> 215)
         then char_of (n + 32) else c)"

definition toLowerCase :: "string \<Rightarrow> string" where
  "toLowerCase s = map lowerChar s"

text \<open>
  The values a field of a JSON response can hold, as far as the client's string code
  tells them apart: a missing field, \<open>null\<close>, a string, a number, a boolean.
\<close>

datatype jsval =
    JUndefined
  | JNull
  | JString string
  | JNumber rat
  | JBoolean bool

datatype js_error = TypeError

section \<open>Severity classifier\<close>

text \<open>
  \<open>getSeverityStyles\<close> of \<open>ResultsDashboard.jsx\<close> (lines 22-49) and of
  \<open>HistoryDetail.jsx\<close> (lines 51-78); the two copies are the same text.

  \<^verbatim>\<open>
  const normalizedSeverity = severity?.toLowerCase() || '';
  if (normalizedSeverity === 'high' || normalizedSeverity === 'alta') { return {red ...}; }
  else if (normalizedSeverity === 'medium' || normalizedSeverity === 'media') { return {yellow ...}; }
  else { return {blue ...}; }
  \<close>
\<close>

datatype icon = AlertTriangle | Info

record severityStyles =
  bg :: string
  border :: string
  badge :: string
  icon :: icon
  iconColor :: string

definition highStyles :: severityStyles where
  "highStyles = \<lparr> bg = ''bg-red-600/20'', border = ''border-red-600/30'',
     badge = ''bg-red-600 text-white'', icon = AlertTriangle, iconColor = ''text-red-400'' \<rparr>"

definition mediumStyles :: severityStyles where
  "mediumStyles = \<lparr> bg = ''bg-yellow-600/20'', border = ''border-yellow-600/30'',
     badge = ''bg-yellow-600 text-white'', icon = AlertTriangle, iconColor = ''text-yellow-400'' \<rparr>"

definition lowStyles :: severityStyles where
  "lowStyles = \<lparr> bg = ''bg-blue-600/20'', border = ''border-blue-600/30'',
     badge = ''bg-blue-600 text-white'', icon = Info, iconColor = ''text-blue-400'' \<rparr>"

text \<open>
  \<open>severity?.toLowerCase()\<close>: the optional chain yields \<open>undefined\<close> on \<open>null\<close> and
  \<open>undefined\<close>, lowercases a string, and throws a TypeError on a number or a boolean,
  which have no \<open>toLowerCase\<close> method to call.
\<close>

fun optToLowerCase :: "jsval \<Rightarrow> js_error + string option" where
  "optToLowerCase JUndefined = Inr None"
| "optToLowerCase JNull = Inr None"
| "optToLowerCase (JString s) = Inr (Some (toLowerCase s))"
| "optToLowerCase (JNumber n) = Inl TypeError"
| "optToLowerCase (JBoolean b) = Inl TypeError"

text \<open>\<open>a || b\<close> on a string that may be undefined: the empty string is falsy.\<close>

fun orElse :: "string option \<Rightarrow> string \<Rightarrow> string" where
  "orElse None d = d"
| "orElse (Some s) d = (if s = [] then d else s)"

definition getSeverityStyles :: "jsval \<Rightarrow> js_error + severityStyles" where
  "getSeverityStyles severity =
     (case optToLowerCase severity of
        Inl e \<Rightarrow> Inl e
      | Inr l \<Rightarrow>
          (let normalizedSeverity = orElse l ''''
           in if normalizedSeverity = ''high'' \<or> normalizedSeverity = ''alta'' then Inr highStyles
              else if normalizedSeverity = ''medium'' \<or> normalizedSeverity = ''media''
                   then Inr mediumStyles
              else Inr lowStyles))"

section \<open>Tier classifier\<close>

text \<open>
  \<open>getScoreColor\<close> of \<open>PriorityBatchView\<close> (\<open>CrossCheckView.jsx\<close>, lines 289-294) and of
  \<open>HistoryDetail.jsx\<close> (lines 80-85), the same text twice:

  \<^verbatim>\<open>
  if (score >= 80) return "text-red-400";
  if (score >= 60) return "text-orange-400";
  if (score >= 40) return "text-yellow-400";
  return "text-green-400";
  \<close>

  The score is a number of a JSON response: a finite number, not necessarily an integer
  and not necessarily between 0 and 100. The comparisons with 80, 60 and 40 are exact,
  so the score is a rational.
\<close>

definition getScoreColor :: "rat \<Rightarrow> string" where
  "getScoreColor score =
     (if score \<ge> 80 then ''text-red-400''
      else if score \<ge> 60 then ''text-orange-400''
      else if score \<ge> 40 then ''text-yellow-400''
      else ''text-green-400'')"

text \<open>The four colours, from the top band down.\<close>

definition tierColors :: "string list" where
  "tierColors = [''text-red-400'', ''text-orange-400'', ''text-yellow-400'', ''text-green-400'']"

text \<open>The band of a colour: the integer scores in [0,100] displayed in it.\<close>

definition inBand :: "string \<Rightarrow> int \<Rightarrow> bool" where
  "inBand c s = (0 \<le> s \<and> s \<le> 100 \<and> getScoreColor (of_int s) = c)"

section \<open>Requests, replies and the state of a view\<close>

text \<open>
  A request either resolves with the body of the response or rejects with an error. The
  handlers read the error through \<open>err.response?.data?.detail\<close> and \<open>err.message\<close>:
  the response, its body and the body's \<open>detail\<close> field may each be missing, and
  \<open>detail\<close>, a field of a JSON body, may hold any JSON value: the service sends a
  string with most errors and a list of objects with a validation error.
\<close>

datatype json =
    JsonNull
  | JsonBool bool
  | JsonNum rat
  | JsonStr string
  | JsonArr "json list"
  | JsonObj "(string \<times> json) list"

text \<open>
  What \<open>||\<close>, \<open>&&\<close> and \<open>?:\<close> test: \<open>null\<close>, \<open>false\<close>, \<open>0\<close> and the empty string
  are falsy; every list and every object is truthy, the empty ones too.
\<close>

fun truthy :: "json \<Rightarrow> bool" where
  "truthy JsonNull = False"
| "truthy (JsonBool b) = b"
| "truthy (JsonNum n) = (n \<noteq> 0)"
| "truthy (JsonStr s) = (s \<noteq> [])"
| "truthy (JsonArr xs) = True"
| "truthy (JsonObj m) = True"

text \<open>\<open>a || b\<close> on a value that may be undefined.\<close>

fun orValue :: "json option \<Rightarrow> json \<Rightarrow> json" where
  "orValue None d = d"
| "orValue (Some v) d = (if truthy v then v else d)"

datatype responseData = ResponseData "json option"

datatype response = Response "responseData option"

record axiosError =
  response :: "response option"
  message :: "string option"

datatype 'r reply = Resolved 'r | Rejected axiosError

fun dataDetail :: "responseData option \<Rightarrow> json option" where
  "dataDetail None = None"
| "dataDetail (Some (ResponseData d)) = d"

fun responseDataDetail :: "response option \<Rightarrow> json option" where
  "responseDataDetail None = None"
| "responseDataDetail (Some (Response b)) = dataDetail b"

text \<open>\<open>err.response?.data?.detail\<close>\<close>

definition errDetail :: "axiosError \<Rightarrow> json option" where
  "errDetail err = responseDataDetail (response err)"

text \<open>
  Every view that talks to the service holds \<open>isLoading\<close> and \<open>error\<close> (\<open>useState\<close>);
  the two upload views hold \<open>isDragging\<close> too. A view's state is a record that extends
  these. \<open>error\<close> is \<open>null\<close> or whatever value a handler stored: one of the view's own
  messages, or the \<open>detail\<close> of an error response.
\<close>

record asyncView =
  isLoading :: bool
  error :: "json option"

text \<open>
  The banner: \<open>{error && (<div> ... <p>{error}</p></div>)}\<close> (\<open>error ? ... : ...\<close> in
  the history detail). It is rendered when \<open>error\<close> is truthy, with \<open>error\<close> as the
  child of its paragraph. React renders a string or a number child as text, nothing for
  \<open>null\<close> and booleans, the items of a list one after the other, and throws on an
  object ("Objects are not valid as a React child").
\<close>

datatype node = TextNode string | NumberNode rat

fun renderChild :: "json \<Rightarrow> node list option"
  and renderChildren :: "json list \<Rightarrow> node list option" where
  "renderChild JsonNull = Some []"
| "renderChild (JsonBool b) = Some []"
| "renderChild (JsonNum n) = Some [NumberNode n]"
| "renderChild (JsonStr s) = Some [TextNode s]"
| "renderChild (JsonArr xs) = renderChildren xs"
| "renderChild (JsonObj m) = None"
| "renderChildren [] = Some []"
| "renderChildren (x # xs) =
     (case renderChild x of
        None \<Rightarrow> None
      | Some a \<Rightarrow> (case renderChildren xs of None \<Rightarrow> None | Some b \<Rightarrow> Some (a @ b)))"

datatype banner = NoBanner | Banner "node list" | RenderThrows

definition bannerOf :: "json option \<Rightarrow> banner" where
  "bannerOf e =
     (case e of
        None \<Rightarrow> NoBanner
      | Some v \<Rightarrow>
          (if truthy v
           then (case renderChild v of None \<Rightarrow> RenderThrows | Some ns \<Rightarrow> Banner ns)
           else NoBanner))"

definition errorBanner :: "'a asyncView_scheme \<Rightarrow> banner" where
  "errorBanner st = bannerOf (error st)"

text \<open>The banner shows one non-empty text.\<close>

definition errorShown :: "'a asyncView_scheme \<Rightarrow> bool" where
  "errorShown st = (case errorBanner st of Banner [TextNode m] \<Rightarrow> m \<noteq> [] | _ \<Rightarrow> False)"

record dropView = asyncView +
  isDragging :: bool

record File =
  name :: string
  fileSize :: nat

text \<open>
  An async handler runs to its \<open>await\<close>, where the request leaves, and resumes when the
  reply arrives: each is modelled as a begin function, which returns the request it
  issued (if any), and a settle function, which takes the reply. The state setters write
  single fields, so settle applies to whatever the state is when the reply arrives.
\<close>

section \<open>File names\<close>

text \<open>
  \<open>name.split('.')\<close>: the pieces of the name between dots; a name with no dot is one
  piece, and the list is never empty.
\<close>

fun split :: "char \<Rightarrow> string \<Rightarrow> string list" where
  "split sep [] = [[]]"
| "split sep (c # cs) =
     (if c = sep then [] # split sep cs
      else (case split sep cs of
              [] \<Rightarrow> [[c]]
            | w # ws \<Rightarrow> (c # w) # ws))"

text \<open>\<open>file.name.split('.').pop().toLowerCase()\<close>\<close>

definition extensionOf :: "File \<Rightarrow> string" where
  "extensionOf f = toLowerCase (last (split (CHR ''.'') (name f)))"

text \<open>The two tests the upload views make on an extension.\<close>

definition excelExtension :: "File \<Rightarrow> bool" where
  "excelExtension f = (extensionOf f = ''xlsx'' \<or> extensionOf f = ''xls'')"

definition pptxExtension :: "File \<Rightarrow> bool" where
  "pptxExtension f = (extensionOf f = ''pptx'')"

definition otherExtension :: "File \<Rightarrow> bool" where
  "otherExtension f = (\<not> excelExtension f \<and> \<not> pptxExtension f)"

section \<open>CrossCheckView\<close>

text \<open>
  \<open>CrossCheckView.jsx\<close>, lines 11-103. \<open>analysisResults\<close> is the state of \<open>App\<close> that
  the view writes through its \<open>onAnalysisComplete\<close> property.
\<close>

record 'r crossCheck = dropView +
  excelFile :: "File option"
  pptxFile :: "File option"
  success :: bool
  analysisResults :: "'r option"

definition handleDragOver :: "'a dropView_scheme \<Rightarrow> 'a dropView_scheme" where
  "handleDragOver st = st\<lparr>isDragging := True\<rparr>"

definition handleDragLeave :: "'a dropView_scheme \<Rightarrow> 'a dropView_scheme" where
  "handleDragLeave st = st\<lparr>isDragging := False\<rparr>"

text \<open>
  The message of line 47, a template over the extension:
  \<open>`Tipo de archivo no soportado: .${extension}. Solo se aceptan .xlsx y .pptx.`\<close>
\<close>

definition crossCheckUnsupported :: "string \<Rightarrow> string" where
  "crossCheckUnsupported extension =
     ''Tipo de archivo no soportado: .'' @ extension @ ''. Solo se aceptan .xlsx y .pptx.''"

text \<open>The body of the \<open>forEach\<close> of \<open>processFiles\<close> (lines 39-49).\<close>

definition processFile :: "File \<Rightarrow> 'r crossCheck \<Rightarrow> 'r crossCheck" where
  "processFile f st =
     (let extension = extensionOf f
      in if extension = ''xlsx'' \<or> extension = ''xls'' then st\<lparr>excelFile := Some f\<rparr>
         else if extension = ''pptx'' then st\<lparr>pptxFile := Some f\<rparr>
         else st\<lparr>error := Some (JsonStr (crossCheckUnsupported extension))\<rparr>)"

definition processFiles :: "File list \<Rightarrow> 'r crossCheck \<Rightarrow> 'r crossCheck" where
  "processFiles files st = fold processFile files st"

definition handleDrop :: "File list \<Rightarrow> 'r crossCheck \<Rightarrow> 'r crossCheck" where
  "handleDrop files st = processFiles files (st\<lparr>isDragging := False, error := None\<rparr>)"

text \<open>
  \<open>handleFileSelect(e, fileType)\<close> (lines 52-62); the first argument is
  \<open>e.target.files?.[0]\<close>, the file picked or nothing.
\<close>

definition handleFileSelect :: "File option \<Rightarrow> string \<Rightarrow> 'r crossCheck \<Rightarrow> 'r crossCheck" where
  "handleFileSelect picked fileType st =
     (case picked of
        None \<Rightarrow> st
      | Some f \<Rightarrow>
          (if fileType = ''excel'' then st\<lparr>error := None, excelFile := Some f\<rparr>
           else st\<lparr>error := None, pptxFile := Some f\<rparr>))"

definition removeFile :: "string \<Rightarrow> 'r crossCheck \<Rightarrow> 'r crossCheck" where
  "removeFile fileType st =
     (if fileType = ''excel'' then st\<lparr>excelFile := None\<rparr> else st\<lparr>pptxFile := None\<rparr>)
       \<lparr>success := False, error := None\<rparr>"

text \<open>
  \<open>handleAnalyze\<close> (lines 74-103) up to the \<open>await\<close>: the request, when one is issued,
  is the form data \<open>(file_excel, file_ppt)\<close> posted to \<open>/analyze\<close>.
\<close>

definition handleAnalyze_begin :: "'r crossCheck \<Rightarrow> 'r crossCheck \<times> (File \<times> File) option" where
  "handleAnalyze_begin st =
     (case (excelFile st, pptxFile st) of
        (Some x, Some p) \<Rightarrow>
          (st\<lparr>isLoading := True, error := None, success := False\<rparr>, Some (x, p))
      | _ \<Rightarrow>
          (st\<lparr>error := Some (JsonStr ''Por favor sube tanto el archivo Excel como el PowerPoint.'')\<rparr>,
           None))"

definition analyzeFallback :: string where
  "analyzeFallback = ''Error en an'' @ [CHR 0xE1] @ ''lisis. Por favor intenta de nuevo.''"

definition handleAnalyze_settle :: "'r reply \<Rightarrow> 'r crossCheck \<Rightarrow> 'r crossCheck" where
  "handleAnalyze_settle rep st =
     (case rep of
        Resolved d \<Rightarrow> st\<lparr>success := True, analysisResults := Some d\<rparr>
      | Rejected err \<Rightarrow>
          st\<lparr>error := Some (orValue (errDetail err)
                               (JsonStr (orElse (message err) analyzeFallback)))\<rparr>)
       \<lparr>isLoading := False\<rparr>"

text \<open>One click on the button, the reply arriving with nothing in between.\<close>

definition handleAnalyze :: "(File \<times> File \<Rightarrow> 'r reply) \<Rightarrow> 'r crossCheck \<Rightarrow> 'r crossCheck" where
  "handleAnalyze service st =
     (case handleAnalyze_begin st of
        (st', None) \<Rightarrow> st'
      | (st', Some request) \<Rightarrow> handleAnalyze_settle (service request) st')"

section \<open>PriorityBatchView\<close>

text \<open>\<open>PriorityBatchView\<close> (second part of \<open>CrossCheckView.jsx\<close>, lines 228-287).\<close>

record 'r priorityBatch = dropView +
  "file" :: "File option"
  results :: "'r option"

definition batchUnsupported :: string where
  "batchUnsupported = ''Tipo de archivo no soportado. Por favor sube un archivo Excel v''
     @ [CHR 0xE1] @ ''lido (.xlsx)''"

definition validateAndSetFile :: "File option \<Rightarrow> 'r priorityBatch \<Rightarrow> 'r priorityBatch" where
  "validateAndSetFile selectedFile st =
     (case selectedFile of
        None \<Rightarrow> st
      | Some f \<Rightarrow>
          (let extension = extensionOf f
           in if extension = ''xlsx'' \<or> extension = ''xls''
              then st\<lparr>file := Some f, error := None\<rparr>
              else st\<lparr>error := Some (JsonStr batchUnsupported)\<rparr>))"

text \<open>\<open>e.dataTransfer.files[0]\<close>: the first dropped file, or nothing.\<close>

fun firstFile :: "File list \<Rightarrow> File option" where
  "firstFile [] = None"
| "firstFile (f # fs) = Some f"

definition batchHandleDrop :: "File list \<Rightarrow> 'r priorityBatch \<Rightarrow> 'r priorityBatch" where
  "batchHandleDrop files st = validateAndSetFile (firstFile files) (st\<lparr>isDragging := False\<rparr>)"

definition batchHandleFileSelect :: "File option \<Rightarrow> 'r priorityBatch \<Rightarrow> 'r priorityBatch" where
  "batchHandleFileSelect picked st = validateAndSetFile picked st"

definition handleProcess_begin :: "'r priorityBatch \<Rightarrow> 'r priorityBatch \<times> File option" where
  "handleProcess_begin st =
     (case file st of
        None \<Rightarrow> (st, None)
      | Some f \<Rightarrow> (st\<lparr>isLoading := True, error := None\<rparr>, Some f))"

definition processFallback :: string where
  "processFallback = ''Fall'' @ [CHR 0xF3] @ '' el procesamiento. Por favor intenta de nuevo.''"

definition handleProcess_settle :: "'r reply \<Rightarrow> 'r priorityBatch \<Rightarrow> 'r priorityBatch" where
  "handleProcess_settle rep st =
     (case rep of
        Resolved d \<Rightarrow> st\<lparr>results := Some d\<rparr>
      | Rejected err \<Rightarrow> st\<lparr>error := Some (orValue (errDetail err) (JsonStr processFallback))\<rparr>)
       \<lparr>isLoading := False\<rparr>"

definition handleProcess :: "(File \<Rightarrow> 'r reply) \<Rightarrow> 'r priorityBatch \<Rightarrow> 'r priorityBatch" where
  "handleProcess service st =
     (case handleProcess_begin st of
        (st', None) \<Rightarrow> st'
      | (st', Some request) \<Rightarrow> handleProcess_settle (service request) st')"

section \<open>ProjectScorer\<close>

text \<open>
  \<open>ProjectScorer.jsx\<close>, lines 11-44. \<open>formData\<close> is an object with the five factor
  keys; \<open>{...prev, [field]: Number(value)}\<close> replaces the value at one key.
\<close>

datatype factorKey = roi | urgency | risk | strategic_alignment | resource_availability

type_synonym formData = "factorKey \<Rightarrow> int"

record 'r projectScorer = asyncView +
  formData :: formData
  result :: "'r option"

definition initialScorer :: "'r projectScorer" where
  "initialScorer = \<lparr> isLoading = False, error = None, formData = (\<lambda>k. 50), result = None \<rparr>"

definition handleSliderChange :: "factorKey \<Rightarrow> int \<Rightarrow> 'r projectScorer \<Rightarrow> 'r projectScorer" where
  "handleSliderChange field v st = st\<lparr>formData := (formData st)(field := v), result := None\<rparr>"

definition handleCalculate_begin :: "'r projectScorer \<Rightarrow> 'r projectScorer \<times> formData" where
  "handleCalculate_begin st = (st\<lparr>isLoading := True, error := None\<rparr>, formData st)"

definition calculateFallback :: string where
  "calculateFallback = ''Failed to calculate priority score.''"

definition handleCalculate_settle :: "'r reply \<Rightarrow> 'r projectScorer \<Rightarrow> 'r projectScorer" where
  "handleCalculate_settle rep st =
     (case rep of
        Resolved d \<Rightarrow> st\<lparr>result := Some d\<rparr>
      | Rejected err \<Rightarrow> st\<lparr>error := Some (orValue (errDetail err) (JsonStr calculateFallback))\<rparr>)
       \<lparr>isLoading := False\<rparr>"

definition handleCalculate :: "(formData \<Rightarrow> 'r reply) \<Rightarrow> 'r projectScorer \<Rightarrow> 'r projectScorer" where
  "handleCalculate service st =
     (case handleCalculate_begin st of (st', request) \<Rightarrow> handleCalculate_settle (service request) st')"

text \<open>
  What the user and the network can do to the scorer, one event at a time. The sliders
  stay enabled while a request is in flight; the button is disabled (\<open>disabled={isLoading}\<close>).
  \<open>inflight\<close> is the form data of the request that has left and not yet been answered.
\<close>

datatype scorerEvent = SliderChange factorKey int | ClickCalculate | ReplyArrives

record 'r scorerSession =
  view :: "'r projectScorer"
  inflight :: "formData option"

fun scorerStep :: "(formData \<Rightarrow> 'r reply) \<Rightarrow> scorerEvent \<Rightarrow> 'r scorerSession \<Rightarrow> 'r scorerSession" where
  "scorerStep service (SliderChange field v) s = s\<lparr>view := handleSliderChange field v (view s)\<rparr>"
| "scorerStep service ClickCalculate s =
     (if isLoading (view s) then s
      else (case handleCalculate_begin (view s) of
              (st', request) \<Rightarrow> \<lparr> view = st', inflight = Some request \<rparr>))"
| "scorerStep service ReplyArrives s =
     (case inflight s of
        None \<Rightarrow> s
      | Some request \<Rightarrow>
          \<lparr> view = handleCalculate_settle (service request) (view s), inflight = None \<rparr>)"

definition scorerRun :: "(formData \<Rightarrow> 'r reply) \<Rightarrow> scorerEvent list \<Rightarrow> 'r scorerSession" where
  "scorerRun service events = fold (scorerStep service) events \<lparr> view = initialScorer, inflight = None \<rparr>"

section \<open>History views\<close>







section \<open>Initial states and fixtures\<close>

text \<open>The \<open>useState\<close> initial values of the two upload views.\<close>

definition initialCrossCheck :: "'r crossCheck" where
  "initialCrossCheck = \<lparr> isLoading = False, error = None, isDragging = False,
     excelFile = None, pptxFile = None, success = False, analysisResults = None \<rparr>"

definition initialBatch :: "'r priorityBatch" where
  "initialBatch = \<lparr> isLoading = False, error = None, isDragging = False,
     file = None, results = None \<rparr>"

text \<open>
  A scoring service for the examples: it answers a request with the \<open>roi\<close> it was sent,
  so that a reply tells which form data produced it.
\<close>

definition echoService :: "formData \<Rightarrow> int reply" where
  "echoService request = Resolved (request roi)"



text \<open>Files for the examples.\<close>

definition flujoXlsx :: File where
  "flujoXlsx = \<lparr> name = ''Flujo.2024.XLSX'', fileSize = 2048 \<rparr>"

definition cierreXls :: File where
  "cierreXls = \<lparr> name = ''cierre.xls'', fileSize = 1024 \<rparr>"

definition deckPptx :: File where
  "deckPptx = \<lparr> name = ''deck.pptx'', fileSize = 4096 \<rparr>"

definition notesTxt :: File where
  "notesTxt = \<lparr> name = ''notes.txt'', fileSize = 12 \<rparr>"




section \<open>Score aggregator and batch assembler\<close>

text \<open>
  The client posts the factors and renders the \<open>PriorityResult\<close> and the \<open>BatchResult\<close>
  it receives (\<open>ProjectScorer.jsx\<close>, lines 186-229; \<open>PriorityBatchView\<close>, lines 381-430);
  the aggregator and the assembler that produce them run in the remote service, whose
  code is not among the sources. They are modelled here from sections 3, 4.3, 4.5 and 7
  of the specification. The weight table is configuration and stays a parameter. The
  tier, the tier colour and the recommendation of a result are functions of its score
  that the specification leaves to configuration; they are left out.
\<close>

text \<open>Modelled from the spec: the error taxonomy of section 7 (the service's code is missing).\<close>

datatype coreError = RangeError | ConfigurationError | ValidationError | TransportError

text \<open>
  Modelled from the spec: a Factor (section 3), \<open>{key, value}\<close> with the value a number
  in [0,100]; the service's type is missing.
\<close>

record Factor =
  key :: factorKey
  fvalue :: rat

text \<open>
  Modelled from the spec: a ScoreBreakdown entry (section 3),
  \<open>{factorKey, value, contribution}\<close>; the service's type is missing.
\<close>

record breakdownEntry =
  entryKey :: factorKey
  entryValue :: rat
  contribution :: int

text \<open>
  Modelled from the spec: a PriorityResult (section 3), its score and its breakdown, the
  breakdown kept in the order of the factors; the service's type is missing.
\<close>

record priorityResult =
  score :: int
  breakdown :: "breakdownEntry list"

type_synonym weights = "factorKey \<Rightarrow> rat"

text \<open>Modelled from the spec: the five required factor keys (section 3).\<close>

definition factorKeys :: "factorKey list" where
  "factorKeys = [roi, urgency, risk, strategic_alignment, resource_availability]"

text \<open>
  Modelled from the spec: the input constraint of the aggregator (4.3 and section 3),
  missing with the service. Every required key is present exactly once, else the record
  fails validation; a value outside [0,100] is rejected, not clamped.
\<close>

definition validateFactors :: "Factor list \<Rightarrow> coreError + Factor list" where
  "validateFactors fs =
     (if \<exists>k \<in> set factorKeys. length (filter (\<lambda>f. key f = k) fs) \<noteq> 1 then Inl ValidationError
      else if \<exists>f \<in> set fs. fvalue f < 0 \<or> 100 < fvalue f then Inl RangeError
      else Inr fs)"

text \<open>
  Modelled from the spec: the fixed rounding policy of 4.3, round half up, missing with
  the service.
\<close>

definition roundHalfUp :: "rat \<Rightarrow> int" where
  "roundHalfUp x = \<lfloor>x + 1 / 2\<rfloor>"

text \<open>Modelled from the spec: \<open>clamp(x, lo, hi)\<close> of 4.3, missing with the service.\<close>

definition clamp :: "int \<Rightarrow> int \<Rightarrow> int \<Rightarrow> int" where
  "clamp x lo hi = max lo (min hi x)"

text \<open>
  Modelled from the spec: \<open>contribution_i = round(value_i * weight_i)\<close> (4.3), missing
  with the service.
\<close>

definition share :: "weights \<Rightarrow> Factor \<Rightarrow> breakdownEntry" where
  "share w f = \<lparr> entryKey = key f, entryValue = fvalue f,
                 contribution = roundHalfUp (fvalue f * w (key f)) \<rparr>"

text \<open>
  Modelled from the spec: the reconciliation of 4.3, missing with the service: the
  residual is assigned to the largest contributor (the first one, when several are
  largest).
\<close>

fun addToLargest :: "int \<Rightarrow> breakdownEntry list \<Rightarrow> breakdownEntry list" where
  "addToLargest r [] = []"
| "addToLargest r (e # es) =
     (if \<forall>e' \<in> set es. contribution e' \<le> contribution e
      then e\<lparr>contribution := contribution e + r\<rparr> # es
      else e # addToLargest r es)"

text \<open>
  Modelled from the spec: \<open>aggregate(factors, weights)\<close> of 4.3, missing with the service:
  validate, round each factor's share, clamp the sum to [0,100] for the score, and
  reconcile the breakdown with the score.
\<close>

definition aggregate :: "weights \<Rightarrow> Factor list \<Rightarrow> coreError + priorityResult" where
  "aggregate w factors =
     (case validateFactors factors of
        Inl e \<Rightarrow> Inl e
      | Inr fs \<Rightarrow>
          (let entries = map (share w) fs;
               total = sum_list (map contribution entries);
               s = clamp total 0 100
           in Inr \<lparr> score = s, breakdown = addToLargest (s - total) entries \<rparr>))"

text \<open>
  Modelled from the spec: a project of a batch and an entry of the results (section 3 and
  4.5): the project's \<open>{id, name, area, sponsor}\<close>, its factors on the way in, its
  result on the way out. The service's types are missing.
\<close>

record projectInfo =
  projectId :: string
  projectName :: string
  area :: string
  sponsor :: string

record project = projectInfo +
  factors :: "Factor list"

record batchEntry =
  entryInfo :: projectInfo
  entryResult :: priorityResult

definition entryScore :: "batchEntry \<Rightarrow> int" where
  "entryScore e = score (entryResult e)"

text \<open>
  Modelled from the spec: a BatchResult (section 3); \<open>rankedResults\<close> is its \<open>results\<close>
  sequence. The service's type is missing.
\<close>

record batchResult =
  totalProjects :: nat
  rankedResults :: "batchEntry list"

text \<open>
  Modelled from the spec: the policy of 4.5 for a project whose factor set is invalid, an
  explicit option of the assembler (missing with the service).
\<close>

datatype batchPolicy = AbortAll | SkipAndContinue

text \<open>
  Modelled from the spec: the first step of \<open>assemble\<close> (4.5), missing with the service:
  invoke the aggregator on each project, in input order; an invalid project fails the
  whole batch or is skipped, by the policy.
\<close>

fun collect :: "batchPolicy \<Rightarrow> weights \<Rightarrow> project list \<Rightarrow> coreError + batchEntry list" where
  "collect policy w [] = Inr []"
| "collect policy w (p # ps) =
     (case aggregate w (factors p) of
        Inl e \<Rightarrow> (case policy of AbortAll \<Rightarrow> Inl e | SkipAndContinue \<Rightarrow> collect policy w ps)
      | Inr r \<Rightarrow>
          (case collect policy w ps of
             Inl e \<Rightarrow> Inl e
           | Inr es \<Rightarrow> Inr (\<lparr> entryInfo = projectInfo.truncate p, entryResult = r \<rparr> # es)))"

text \<open>
  The score the aggregator gives a project of the input, if its factor set is valid
  (the aggregator above, applied to the project's factors).
\<close>

definition projectScore :: "weights \<Rightarrow> project \<Rightarrow> int option" where
  "projectScore w p = (case aggregate w (factors p) of Inl e \<Rightarrow> None | Inr r \<Rightarrow> Some (score r))"

text \<open>
  Modelled from the spec: the sort of 4.5, missing with the service: descending by score
  with a stable sort (insertion sort on the negated score).
\<close>

definition rankByScore :: "batchEntry list \<Rightarrow> batchEntry list" where
  "rankByScore es = sort_key (\<lambda>e. - entryScore e) es"

text \<open>Modelled from the spec: \<open>assemble(projects, weights)\<close> of 4.5, missing with the service.\<close>

definition assemble :: "batchPolicy \<Rightarrow> weights \<Rightarrow> project list \<Rightarrow> coreError + batchResult" where
  "assemble policy w ps =
     (case collect policy w ps of
        Inl e \<Rightarrow> Inl e
      | Inr es \<Rightarrow> Inr \<lparr> totalProjects = length es, rankedResults = rankByScore es \<rparr>)"

text \<open>
  The example of section 8: the weight table and the factor set of the pinned scenario,
  and projects for the batch example.
\<close>

definition exampleWeights :: weights where
  "exampleWeights k =
     (case k of roi \<Rightarrow> 3 / 10 | urgency \<Rightarrow> 1 / 4 | risk \<Rightarrow> - (3 / 20)
      | strategic_alignment \<Rightarrow> 1 / 5 | resource_availability \<Rightarrow> 1 / 10)"

definition factorSet :: "rat \<Rightarrow> rat \<Rightarrow> rat \<Rightarrow> rat \<Rightarrow> rat \<Rightarrow> Factor list" where
  "factorSet a b c d e =
     [\<lparr> key = roi, fvalue = a \<rparr>, \<lparr> key = urgency, fvalue = b \<rparr>, \<lparr> key = risk, fvalue = c \<rparr>,
      \<lparr> key = strategic_alignment, fvalue = d \<rparr>, \<lparr> key = resource_availability, fvalue = e \<rparr>]"

definition exampleProject :: "string \<Rightarrow> Factor list \<Rightarrow> project" where
  "exampleProject i fs = \<lparr> projectId = i, projectName = ''Proyecto '' @ i, area = ''TI'',
     sponsor = ''PMO'', factors = fs \<rparr>"

text \<open>The batch example of section 8: three projects that score 55, 82 and 82.\<close>

definition exampleBatch :: "project list" where
  "exampleBatch =
     [exampleProject ''A'' (factorSet 50 60 0 100 50),
      exampleProject ''B'' (factorSet 90 100 0 100 100),
      exampleProject ''C'' (factorSet 100 100 0 100 70)]"



section \<open>Properties of the classifiers\<close>

lemma styles_distinct:
  "highStyles \<noteq> mediumStyles" "highStyles \<noteq> lowStyles" "mediumStyles \<noteq> lowStyles"
  by (simp_all add: highStyles_def mediumStyles_def lowStyles_def)

text \<open>
  C1. The severity classifier is total on labels: a missing label (\<open>undefined\<close>), \<open>null\<close>
  and every string get exactly one of the three style sets and no error is thrown. A
  string whose lowercase form is \<open>high\<close> or \<open>alta\<close> gets the high (red) styles, one
  whose lowercase form is \<open>medium\<close> or \<open>media\<close> the medium (yellow) styles, and every
  other label, the empty string and the missing ones included, the low (blue) styles.
  The three style sets are pairwise different, so the class is unique.
\<close>

theorem getSeverityStyles_total:
  "getSeverityStyles JUndefined = Inr lowStyles
   \<and> getSeverityStyles JNull = Inr lowStyles
   \<and> getSeverityStyles (JString s) =
       Inr (if toLowerCase s = ''high'' \<or> toLowerCase s = ''alta'' then highStyles
            else if toLowerCase s = ''medium'' \<or> toLowerCase s = ''media'' then mediumStyles
            else lowStyles)
   \<and> highStyles \<noteq> mediumStyles \<and> highStyles \<noteq> lowStyles \<and> mediumStyles \<noteq> lowStyles"
  by (simp add: getSeverityStyles_def styles_distinct)

theorem getSeverityStyles_total_witness:
  "getSeverityStyles (JString ''ALTA'') = Inr highStyles
   \<and> getSeverityStyles (JString ''Medium'') = Inr mediumStyles
   \<and> getSeverityStyles (JString ''critical'') = Inr lowStyles
   \<and> getSeverityStyles (JString []) = Inr lowStyles"
proof -
  have l: "toLowerCase ''ALTA'' = ''alta''" "toLowerCase ''Medium'' = ''medium''"
    "toLowerCase ''critical'' = ''critical''" "toLowerCase [] = []"
    by code_simp+
  show ?thesis
    using getSeverityStyles_total [of "''ALTA''"] getSeverityStyles_total [of "''Medium''"]
      getSeverityStyles_total [of "''critical''"] getSeverityStyles_total [of "[]"]
    by (simp add: l)
qed

text \<open>
  C2, as the claim states it, fails at 79: the claim's own bands put 79 in the band from
  60 to 79, displayed orange, and the code does so; it does not yield the yellow of the
  band from 40 to 59.
\<close>

theorem getScoreColor_79_counterexample:
  "getScoreColor 79 = ''text-orange-400'' \<and> getScoreColor 79 \<noteq> ''text-yellow-400''"
  by (simp add: getScoreColor_def)

text \<open>
  C2, amended. The classifier is lower-edge inclusive with thresholds 80, 60 and 40: a
  score of 80 or more is displayed red, a score from 60 up to (not including) 80 orange,
  from 40 up to 60 yellow, and below 40 green; 79 is orange and 80 is red.
\<close>

theorem getScoreColor_bands:
  "(80 \<le> s \<longrightarrow> getScoreColor s = ''text-red-400'')
   \<and> (60 \<le> s \<and> s < 80 \<longrightarrow> getScoreColor s = ''text-orange-400'')
   \<and> (40 \<le> s \<and> s < 60 \<longrightarrow> getScoreColor s = ''text-yellow-400'')
   \<and> (s < 40 \<longrightarrow> getScoreColor s = ''text-green-400'')
   \<and> getScoreColor 79 = ''text-orange-400''
   \<and> getScoreColor 80 = ''text-red-400''"
  by (simp add: getScoreColor_def)

theorem getScoreColor_bands_witness:
  "(80::rat) \<le> 80 \<and> getScoreColor 80 = ''text-red-400''
   \<and> (60::rat) \<le> 79 \<and> (79::rat) < 80 \<and> getScoreColor 79 = ''text-orange-400''
   \<and> (40::rat) \<le> 40 \<and> (40::rat) < 60 \<and> getScoreColor 40 = ''text-yellow-400''
   \<and> (39::rat) < 40 \<and> getScoreColor 39 = ''text-green-400''"
  using getScoreColor_bands [of 80] getScoreColor_bands [of 40] getScoreColor_bands [of 39]
  by simp

text \<open>
  C3. Every integer score from 0 to 100 is in the band of exactly one of the four
  colours, and the bands are the consecutive ranges 0..39 (green), 40..59 (yellow),
  60..79 (orange) and 80..100 (red): together they cover 0..100 with no gap and no
  overlap.
\<close>

theorem getScoreColor_partition:
  "0 \<le> s \<Longrightarrow> s \<le> 100 \<Longrightarrow>
     (\<exists>!c. c \<in> set tierColors \<and> inBand c s)
     \<and> (inBand ''text-green-400'' s \<longleftrightarrow> 0 \<le> s \<and> s \<le> 39)
     \<and> (inBand ''text-yellow-400'' s \<longleftrightarrow> 40 \<le> s \<and> s \<le> 59)
     \<and> (inBand ''text-orange-400'' s \<longleftrightarrow> 60 \<le> s \<and> s \<le> 79)
     \<and> (inBand ''text-red-400'' s \<longleftrightarrow> 80 \<le> s \<and> s \<le> 100)"
proof -
  assume r: "0 \<le> s" "s \<le> 100"
  have one: "\<exists>!c. c \<in> set tierColors \<and> inBand c s"
  proof (rule ex1I [of _ "getScoreColor (of_int s)"])
    show "getScoreColor (of_int s) \<in> set tierColors \<and> inBand (getScoreColor (of_int s)) s"
      using r by (simp add: inBand_def tierColors_def getScoreColor_def)
  next
    fix c assume "c \<in> set tierColors \<and> inBand c s"
    then show "c = getScoreColor (of_int s)" by (simp add: inBand_def)
  qed
  have bands: "(inBand ''text-green-400'' s \<longleftrightarrow> 0 \<le> s \<and> s \<le> 39)
     \<and> (inBand ''text-yellow-400'' s \<longleftrightarrow> 40 \<le> s \<and> s \<le> 59)
     \<and> (inBand ''text-orange-400'' s \<longleftrightarrow> 60 \<le> s \<and> s \<le> 79)
     \<and> (inBand ''text-red-400'' s \<longleftrightarrow> 80 \<le> s \<and> s \<le> 100)"
    by (auto simp: inBand_def getScoreColor_def)
  from one bands show ?thesis by blast
qed

theorem getScoreColor_partition_witness:
  "(0::int) \<le> 79 \<and> (79::int) \<le> 100
   \<and> (\<exists>!c. c \<in> set tierColors \<and> inBand c 79) \<and> inBand ''text-orange-400'' 79"
  using getScoreColor_partition [of 79] by simp

text \<open>
  C6, as the claim states it, fails: the code has no range check and no throw. At 101,
  at -5 and at 79.5, none of them an integer in [0,100], it returns a colour.
\<close>

theorem getScoreColor_range_counterexample:
  "getScoreColor 101 = ''text-red-400''
   \<and> getScoreColor (- 5) = ''text-green-400''
   \<and> getScoreColor (159 / 2) = ''text-orange-400''"
  by (simp add: getScoreColor_def)

text \<open>
  C6, amended. The classifier never fails: for every numeric score, integer or not,
  inside [0,100] or not, it returns one of the four colours; a score above 100 is
  displayed red like the top band and a score below 0 green like the bottom band.
\<close>

theorem getScoreColor_never_fails:
  "getScoreColor s \<in> set tierColors
   \<and> (100 < s \<longrightarrow> getScoreColor s = ''text-red-400'')
   \<and> (s < 0 \<longrightarrow> getScoreColor s = ''text-green-400'')"
  by (simp add: getScoreColor_def tierColors_def)

theorem getScoreColor_never_fails_witness:
  "(100::rat) < 101 \<and> getScoreColor 101 = ''text-red-400''
   \<and> (- 5 :: rat) < 0 \<and> getScoreColor (- 5) = ''text-green-400''"
  using getScoreColor_never_fails [of 101] getScoreColor_never_fails [of "- 5"]
  by simp

section \<open>Properties of the views\<close>

subsection \<open>Error display\<close>








subsection \<open>The analyze request\<close>

text \<open>
  C8. \<open>handleAnalyze\<close> issues a request exactly when both files are selected, and the
  request carries those two files. When either is missing it sets the error message and
  returns: no request, and the selected files, the success flag and the analysis results
  are as before (only \<open>error\<close> changes).
\<close>

theorem handleAnalyze_requires_both_files:
  "(snd (handleAnalyze_begin st) \<noteq> None \<longleftrightarrow> excelFile st \<noteq> None \<and> pptxFile st \<noteq> None)
   \<and> (excelFile st = None \<or> pptxFile st = None \<longrightarrow>
        handleAnalyze_begin st =
          (st\<lparr>error := Some (JsonStr ''Por favor sube tanto el archivo Excel como el PowerPoint.'')\<rparr>,
           None)
        \<and> handleAnalyze service st =
          st\<lparr>error := Some (JsonStr ''Por favor sube tanto el archivo Excel como el PowerPoint.'')\<rparr>
        \<and> excelFile (handleAnalyze service st) = excelFile st
        \<and> pptxFile (handleAnalyze service st) = pptxFile st
        \<and> success (handleAnalyze service st) = success st
        \<and> analysisResults (handleAnalyze service st) = analysisResults st)
   \<and> (\<forall>x p. excelFile st = Some x \<and> pptxFile st = Some p \<longrightarrow>
        snd (handleAnalyze_begin st) = Some (x, p))"
  by (auto simp: handleAnalyze_begin_def handleAnalyze_def split: option.splits)

theorem handleAnalyze_requires_both_files_witness:
  "excelFile (initialCrossCheck :: unit crossCheck) = None
   \<and> snd (handleAnalyze_begin (initialCrossCheck :: unit crossCheck)) = None
   \<and> handleAnalyze (\<lambda>r. Resolved ()) initialCrossCheck
       = initialCrossCheck
           \<lparr>error := Some (JsonStr ''Por favor sube tanto el archivo Excel como el PowerPoint.'')\<rparr>
   \<and> snd (handleAnalyze_begin
        ((initialCrossCheck :: unit crossCheck)
           \<lparr>excelFile := Some \<lparr> name = ''flujo.xlsx'', fileSize = 2048 \<rparr>,
            pptxFile := Some \<lparr> name = ''comite.pptx'', fileSize = 4096 \<rparr>\<rparr>))
       = Some (\<lparr> name = ''flujo.xlsx'', fileSize = 2048 \<rparr>,
               \<lparr> name = ''comite.pptx'', fileSize = 4096 \<rparr>)"
proof -
  have n: "excelFile (initialCrossCheck :: unit crossCheck) = None"
    by (simp add: initialCrossCheck_def)
  have a: "snd (handleAnalyze_begin (initialCrossCheck :: unit crossCheck)) = None
     \<and> handleAnalyze (\<lambda>r. Resolved ()) initialCrossCheck
       = initialCrossCheck
           \<lparr>error := Some (JsonStr ''Por favor sube tanto el archivo Excel como el PowerPoint.'')\<rparr>"
    using handleAnalyze_requires_both_files
      [of "initialCrossCheck :: unit crossCheck" "\<lambda>r. Resolved ()"] n
    by simp
  have b: "snd (handleAnalyze_begin
        ((initialCrossCheck :: unit crossCheck)
           \<lparr>excelFile := Some \<lparr> name = ''flujo.xlsx'', fileSize = 2048 \<rparr>,
            pptxFile := Some \<lparr> name = ''comite.pptx'', fileSize = 4096 \<rparr>\<rparr>))
       = Some (\<lparr> name = ''flujo.xlsx'', fileSize = 2048 \<rparr>,
               \<lparr> name = ''comite.pptx'', fileSize = 4096 \<rparr>)"
    using handleAnalyze_requires_both_files
      [of "(initialCrossCheck :: unit crossCheck)
           \<lparr>excelFile := Some \<lparr> name = ''flujo.xlsx'', fileSize = 2048 \<rparr>,
            pptxFile := Some \<lparr> name = ''comite.pptx'', fileSize = 4096 \<rparr>\<rparr>"]
    by simp
  from n a b show ?thesis by simp
qed

subsection \<open>File extensions\<close>

text \<open>
  The extension the code tests is the lowercased piece of the name after its last dot, and
  the whole name when it has no dot.
\<close>

lemma split_not_Nil: "split c s \<noteq> []"
  by (induction s) (auto split: list.splits)

lemma split_single: "(\<exists>w. split c s = [w]) \<longleftrightarrow> c \<notin> set s"
  by (induction s) (auto split: list.splits simp: split_not_Nil)

lemma split_no_sep: "c \<notin> set s \<Longrightarrow> split c s = [s]"
  by (induction s) (auto split: list.splits)

lemma last_split: "last (split c s) = rev (takeWhile (\<lambda>x. x \<noteq> c) (rev s))"
proof (induction s)
  case Nil
  then show ?case by simp
next
  case (Cons x xs)
  show ?case
  proof (cases "x = c")
    case True
    then show ?thesis using Cons by (simp add: split_not_Nil takeWhile_append)
  next
    case False
    obtain w ws where sp: "split c xs = w # ws"
      using split_not_Nil [of c xs] by (cases "split c xs") auto
    show ?thesis
    proof (cases "c \<in> set xs")
      case True
      then have "ws \<noteq> []" using split_single [of c xs] sp by auto
      then show ?thesis using Cons sp False True by (auto simp: takeWhile_append)
    next
      case False
      then have "split c xs = [xs]" by (rule split_no_sep)
      then show ?thesis using \<open>x \<noteq> c\<close> False by (simp add: takeWhile_append)
    qed
  qed
qed

lemma extensionOf_last_piece:
  "extensionOf f = toLowerCase (rev (takeWhile (\<lambda>x. x \<noteq> CHR ''.'') (rev (name f))))"
  by (simp add: extensionOf_def last_split)

text \<open>
  A drop on the cross-check view handles its files in turn, so after the drop each input
  holds the last dropped file of its kind and the error the message of the last file of
  no kind.
\<close>

lemma crossCheckUnsupported_nonempty: "crossCheckUnsupported e \<noteq> []"
  by (simp add: crossCheckUnsupported_def)

lemma batchUnsupported_nonempty: "batchUnsupported \<noteq> []"
  by (simp add: batchUnsupported_def)

lemma processFile_cases:
  "(excelExtension f \<longrightarrow> processFile f st = st\<lparr>excelFile := Some f\<rparr>)
   \<and> (pptxExtension f \<longrightarrow> processFile f st = st\<lparr>pptxFile := Some f\<rparr>)
   \<and> (otherExtension f \<longrightarrow>
        processFile f st = st\<lparr>error := Some (JsonStr (crossCheckUnsupported (extensionOf f)))\<rparr>)"
  by (auto simp: processFile_def Let_def excelExtension_def pptxExtension_def otherExtension_def)

lemma extension_kinds:
  "excelExtension f \<or> pptxExtension f \<or> otherExtension f"
  "\<not> (excelExtension f \<and> pptxExtension f)"
  "otherExtension f \<longleftrightarrow> \<not> excelExtension f \<and> \<not> pptxExtension f"
  by (auto simp: excelExtension_def pptxExtension_def otherExtension_def)

lemma fold_processFile_excel:
  "excelFile (fold processFile fs st)
     = (if filter excelExtension fs = [] then excelFile st
        else Some (last (filter excelExtension fs)))"
proof (induction fs rule: rev_induct)
  case Nil
  then show ?case by simp
next
  case (snoc f fs)
  consider "excelExtension f" | "pptxExtension f" | "otherExtension f"
    using extension_kinds(1) by blast
  then show ?case
  proof cases
    case 1
    then show ?thesis using processFile_cases [of f "fold processFile fs st"] by simp
  next
    case 2
    then have "\<not> excelExtension f" using extension_kinds(2) by blast
    then show ?thesis using 2 snoc processFile_cases [of f "fold processFile fs st"] by simp
  next
    case 3
    then have "\<not> excelExtension f" using extension_kinds(3) by blast
    then show ?thesis using 3 snoc processFile_cases [of f "fold processFile fs st"] by simp
  qed
qed

lemma fold_processFile_pptx:
  "pptxFile (fold processFile fs st)
     = (if filter pptxExtension fs = [] then pptxFile st
        else Some (last (filter pptxExtension fs)))"
proof (induction fs rule: rev_induct)
  case Nil
  then show ?case by simp
next
  case (snoc f fs)
  consider "excelExtension f" | "pptxExtension f" | "otherExtension f"
    using extension_kinds(1) by blast
  then show ?case
  proof cases
    case 1
    then have "\<not> pptxExtension f" using extension_kinds(2) by blast
    then show ?thesis using 1 snoc processFile_cases [of f "fold processFile fs st"] by simp
  next
    case 2
    then show ?thesis using processFile_cases [of f "fold processFile fs st"] by simp
  next
    case 3
    then have "\<not> pptxExtension f" using extension_kinds(3) by blast
    then show ?thesis using 3 snoc processFile_cases [of f "fold processFile fs st"] by simp
  qed
qed

lemma fold_processFile_error:
  "error (fold processFile fs st)
     = (if filter otherExtension fs = [] then error st
        else Some (JsonStr (crossCheckUnsupported (extensionOf (last (filter otherExtension fs))))))"
proof (induction fs rule: rev_induct)
  case Nil
  then show ?case by simp
next
  case (snoc f fs)
  consider "excelExtension f" | "pptxExtension f" | "otherExtension f"
    using extension_kinds(1) by blast
  then show ?case
  proof cases
    case 1
    then have "\<not> otherExtension f" using extension_kinds(3) by blast
    then show ?thesis using 1 snoc processFile_cases [of f "fold processFile fs st"] by simp
  next
    case 2
    then have "\<not> otherExtension f" using extension_kinds(3) by blast
    then show ?thesis using 2 snoc processFile_cases [of f "fold processFile fs st"] by simp
  next
    case 3
    then show ?thesis using processFile_cases [of f "fold processFile fs st"] by simp
  qed
qed

text \<open>
  C9, as the claim states it, fails in the batch view. That view has one input, the Excel
  file, so a dropped \<open>deck.pptx\<close> is not accepted as a PowerPoint input: it is refused
  with the error message like any other extension. And the view reads only the first file
  of a drop: \<open>notes.txt\<close> dropped after \<open>flujo.xlsx\<close> produces no error message.
\<close>

theorem batch_rejects_pptx_counterexample:
  "extensionOf \<lparr> name = ''deck.pptx'', fileSize = 4096 \<rparr> = ''pptx''
   \<and> batchHandleDrop [\<lparr> name = ''deck.pptx'', fileSize = 4096 \<rparr>] (initialBatch :: unit priorityBatch)
      = initialBatch \<lparr> error := Some (JsonStr batchUnsupported) \<rparr>
   \<and> extensionOf \<lparr> name = ''notes.txt'', fileSize = 12 \<rparr> = ''txt''
   \<and> batchHandleDrop [\<lparr> name = ''flujo.xlsx'', fileSize = 2048 \<rparr>, \<lparr> name = ''notes.txt'', fileSize = 12 \<rparr>]
        (initialBatch :: unit priorityBatch)
      = initialBatch \<lparr> file := Some \<lparr> name = ''flujo.xlsx'', fileSize = 2048 \<rparr> \<rparr>"
proof -
  have e: "extensionOf \<lparr> name = ''deck.pptx'', fileSize = 4096 \<rparr> = ''pptx''"
    "extensionOf \<lparr> name = ''notes.txt'', fileSize = 12 \<rparr> = ''txt''"
    "extensionOf \<lparr> name = ''flujo.xlsx'', fileSize = 2048 \<rparr> = ''xlsx''"
    by code_simp+
  show ?thesis
    by (simp add: e batchHandleDrop_def validateAndSetFile_def initialBatch_def)
qed

text \<open>
  C9, amended. The extension of a file is the lowercased piece of its name after the last
  dot (the whole name when it has no dot). The cross-check view handles every file of a
  drop in turn (\<open>processFile\<close>): a file becomes the Excel input exactly when its
  extension is \<open>xlsx\<close> or \<open>xls\<close> and the PowerPoint input exactly when it is \<open>pptx\<close>,
  and nothing else changes; a file with any other extension sets the error message and
  leaves both selected files as they were. After the drop the Excel input is the last
  dropped file with an Excel extension (the one selected before, if there is none), the
  PowerPoint input likewise, and the error is the message of the last file with another
  extension (none, if there is no such file). The batch view reads only the first file
  of a drop, or the file picked, and ignores the other files of the drop: that file
  becomes its input exactly when its extension is \<open>xlsx\<close> or \<open>xls\<close>; with any other
  extension, \<open>pptx\<close> included, the error message is displayed and the selected file stays
  as it was.
\<close>

theorem file_validation_by_extension:
  "(excelExtension f \<longrightarrow> processFile f cc = cc\<lparr>excelFile := Some f\<rparr>)
   \<and> (pptxExtension f \<longrightarrow> processFile f cc = cc\<lparr>pptxFile := Some f\<rparr>)
   \<and> (otherExtension f \<longrightarrow>
        processFile f cc = cc\<lparr>error := Some (JsonStr (crossCheckUnsupported (extensionOf f)))\<rparr>
        \<and> errorShown (processFile f cc)
        \<and> excelFile (processFile f cc) = excelFile cc
        \<and> pptxFile (processFile f cc) = pptxFile cc)
   \<and> excelFile (handleDrop fs cc)
        = (if filter excelExtension fs = [] then excelFile cc
           else Some (last (filter excelExtension fs)))
   \<and> pptxFile (handleDrop fs cc)
        = (if filter pptxExtension fs = [] then pptxFile cc
           else Some (last (filter pptxExtension fs)))
   \<and> error (handleDrop fs cc)
        = (if filter otherExtension fs = [] then None
           else Some (JsonStr (crossCheckUnsupported
                  (extensionOf (last (filter otherExtension fs))))))
   \<and> batchHandleDrop [] pb = pb\<lparr>isDragging := False\<rparr>
   \<and> batchHandleDrop (f # rest) pb = batchHandleFileSelect (Some f) (pb\<lparr>isDragging := False\<rparr>)
   \<and> batchHandleFileSelect None pb = pb
   \<and> (excelExtension f \<longrightarrow>
        batchHandleFileSelect (Some f) pb = pb\<lparr>file := Some f, error := None\<rparr>)
   \<and> (\<not> excelExtension f \<longrightarrow>
        batchHandleFileSelect (Some f) pb = pb\<lparr>error := Some (JsonStr batchUnsupported)\<rparr>
        \<and> errorShown (batchHandleFileSelect (Some f) pb)
        \<and> file (batchHandleFileSelect (Some f) pb) = file pb)
   \<and> (excelExtension f \<longleftrightarrow> extensionOf f = ''xlsx'' \<or> extensionOf f = ''xls'')
   \<and> (pptxExtension f \<longleftrightarrow> extensionOf f = ''pptx'')
   \<and> (otherExtension f \<longleftrightarrow> \<not> excelExtension f \<and> \<not> pptxExtension f)
   \<and> extensionOf f = toLowerCase (rev (takeWhile (\<lambda>x. x \<noteq> CHR ''.'') (rev (name f))))"
proof -
  have cross: "(excelExtension f \<longrightarrow> processFile f cc = cc\<lparr>excelFile := Some f\<rparr>)
   \<and> (pptxExtension f \<longrightarrow> processFile f cc = cc\<lparr>pptxFile := Some f\<rparr>)
   \<and> (otherExtension f \<longrightarrow>
        processFile f cc = cc\<lparr>error := Some (JsonStr (crossCheckUnsupported (extensionOf f)))\<rparr>
        \<and> errorShown (processFile f cc)
        \<and> excelFile (processFile f cc) = excelFile cc
        \<and> pptxFile (processFile f cc) = pptxFile cc)"
    using processFile_cases [of f cc]
    by (simp add: errorShown_def errorBanner_def bannerOf_def crossCheckUnsupported_nonempty)
  have drop: "excelFile (handleDrop fs cc)
        = (if filter excelExtension fs = [] then excelFile cc
           else Some (last (filter excelExtension fs)))
   \<and> pptxFile (handleDrop fs cc)
        = (if filter pptxExtension fs = [] then pptxFile cc
           else Some (last (filter pptxExtension fs)))
   \<and> error (handleDrop fs cc)
        = (if filter otherExtension fs = [] then None
           else Some (JsonStr (crossCheckUnsupported
                  (extensionOf (last (filter otherExtension fs))))))"
    by (simp add: handleDrop_def processFiles_def fold_processFile_excel fold_processFile_pptx
        fold_processFile_error)
  have batch: "batchHandleDrop [] pb = pb\<lparr>isDragging := False\<rparr>
   \<and> batchHandleDrop (f # rest) pb = batchHandleFileSelect (Some f) (pb\<lparr>isDragging := False\<rparr>)
   \<and> batchHandleFileSelect None pb = pb
   \<and> (excelExtension f \<longrightarrow>
        batchHandleFileSelect (Some f) pb = pb\<lparr>file := Some f, error := None\<rparr>)
   \<and> (\<not> excelExtension f \<longrightarrow>
        batchHandleFileSelect (Some f) pb = pb\<lparr>error := Some (JsonStr batchUnsupported)\<rparr>
        \<and> errorShown (batchHandleFileSelect (Some f) pb)
        \<and> file (batchHandleFileSelect (Some f) pb) = file pb)"
    by (simp add: batchHandleDrop_def batchHandleFileSelect_def validateAndSetFile_def Let_def
        excelExtension_def errorShown_def errorBanner_def bannerOf_def batchUnsupported_nonempty)
  have ext: "(excelExtension f \<longleftrightarrow> extensionOf f = ''xlsx'' \<or> extensionOf f = ''xls'')
   \<and> (pptxExtension f \<longleftrightarrow> extensionOf f = ''pptx'')
   \<and> (otherExtension f \<longleftrightarrow> \<not> excelExtension f \<and> \<not> pptxExtension f)
   \<and> extensionOf f = toLowerCase (rev (takeWhile (\<lambda>x. x \<noteq> CHR ''.'') (rev (name f))))"
    by (simp add: excelExtension_def pptxExtension_def otherExtension_def
        extensionOf_last_piece [symmetric])
  from cross drop batch ext show ?thesis by blast
qed

theorem file_validation_by_extension_witness:
  "excelExtension flujoXlsx
   \<and> processFile flujoXlsx (initialCrossCheck :: unit crossCheck)
      = initialCrossCheck \<lparr> excelFile := Some flujoXlsx \<rparr>
   \<and> batchHandleFileSelect (Some flujoXlsx) (initialBatch :: unit priorityBatch)
      = initialBatch \<lparr> file := Some flujoXlsx, error := None \<rparr>
   \<and> pptxExtension deckPptx
   \<and> processFile deckPptx (initialCrossCheck :: unit crossCheck)
      = initialCrossCheck \<lparr> pptxFile := Some deckPptx \<rparr>
   \<and> \<not> excelExtension deckPptx
   \<and> errorShown (batchHandleFileSelect (Some deckPptx) (initialBatch :: unit priorityBatch))
   \<and> otherExtension notesTxt
   \<and> errorShown (processFile notesTxt (initialCrossCheck :: unit crossCheck))
   \<and> excelFile (handleDrop [flujoXlsx, notesTxt, cierreXls] (initialCrossCheck :: unit crossCheck))
      = Some cierreXls
   \<and> pptxFile (handleDrop [flujoXlsx, notesTxt, cierreXls] (initialCrossCheck :: unit crossCheck))
      = None
   \<and> error (handleDrop [flujoXlsx, notesTxt, cierreXls] (initialCrossCheck :: unit crossCheck))
      = Some (JsonStr ''Tipo de archivo no soportado: .txt. Solo se aceptan .xlsx y .pptx.'')
   \<and> batchHandleDrop [cierreXls, notesTxt] (initialBatch :: unit priorityBatch)
      = initialBatch \<lparr> file := Some cierreXls \<rparr>"
proof -
  have k: "excelExtension flujoXlsx" "excelExtension cierreXls" "pptxExtension deckPptx"
    "otherExtension notesTxt" "\<not> excelExtension deckPptx" "\<not> excelExtension notesTxt"
    "\<not> pptxExtension flujoXlsx" "\<not> pptxExtension cierreXls" "\<not> pptxExtension notesTxt"
    "\<not> otherExtension flujoXlsx" "\<not> otherExtension cierreXls"
    by code_simp+
  have t: "extensionOf notesTxt = ''txt''"
    by code_simp
  note x = file_validation_by_extension
    [of flujoXlsx "initialCrossCheck :: unit crossCheck" "[flujoXlsx, notesTxt, cierreXls]"
      "initialBatch :: unit priorityBatch" "[]"]
  note p = file_validation_by_extension
    [of deckPptx "initialCrossCheck :: unit crossCheck" "[]" "initialBatch :: unit priorityBatch" "[]"]
  note n = file_validation_by_extension
    [of notesTxt "initialCrossCheck :: unit crossCheck" "[]" "initialBatch :: unit priorityBatch" "[]"]
  note c = file_validation_by_extension
    [of cierreXls "initialCrossCheck :: unit crossCheck" "[]" "initialBatch :: unit priorityBatch"
      "[notesTxt]"]
  have a: "processFile flujoXlsx (initialCrossCheck :: unit crossCheck)
      = initialCrossCheck \<lparr> excelFile := Some flujoXlsx \<rparr>
    \<and> batchHandleFileSelect (Some flujoXlsx) (initialBatch :: unit priorityBatch)
      = initialBatch \<lparr> file := Some flujoXlsx, error := None \<rparr>"
    using x k(1) by blast
  have b: "processFile deckPptx (initialCrossCheck :: unit crossCheck)
      = initialCrossCheck \<lparr> pptxFile := Some deckPptx \<rparr>
    \<and> errorShown (batchHandleFileSelect (Some deckPptx) (initialBatch :: unit priorityBatch))"
    using p k(3,5) by blast
  have e: "errorShown (processFile notesTxt (initialCrossCheck :: unit crossCheck))"
    using n k(4) by blast
  have d: "excelFile (handleDrop [flujoXlsx, notesTxt, cierreXls] (initialCrossCheck :: unit crossCheck))
      = Some cierreXls
    \<and> pptxFile (handleDrop [flujoXlsx, notesTxt, cierreXls] (initialCrossCheck :: unit crossCheck))
      = None
    \<and> error (handleDrop [flujoXlsx, notesTxt, cierreXls] (initialCrossCheck :: unit crossCheck))
      = Some (JsonStr ''Tipo de archivo no soportado: .txt. Solo se aceptan .xlsx y .pptx.'')"
    using x k t by (simp add: initialCrossCheck_def crossCheckUnsupported_def)
  have g: "batchHandleDrop [cierreXls, notesTxt] (initialBatch :: unit priorityBatch)
      = initialBatch \<lparr> file := Some cierreXls \<rparr>"
    using c k(2) by (simp add: initialBatch_def)
  from k a b e d g show ?thesis by blast
qed

text \<open>
  The pickers of the cross-check view are another path: \<open>handleFileSelect\<close> stores the
  picked file in the slot of its picker without a look at the name. Picked through the
  Excel picker, \<open>notes.txt\<close> becomes the Excel input and no error is set, where the same
  file dropped on the view is refused.
\<close>

lemma handleFileSelect_skips_validation:
  "otherExtension notesTxt
   \<and> handleFileSelect (Some notesTxt) ''excel'' (initialCrossCheck :: unit crossCheck)
      = initialCrossCheck \<lparr> excelFile := Some notesTxt \<rparr>
   \<and> handleDrop [notesTxt] (initialCrossCheck :: unit crossCheck)
      = initialCrossCheck
          \<lparr> error := Some (JsonStr ''Tipo de archivo no soportado: .txt. Solo se aceptan .xlsx y .pptx.'') \<rparr>"
proof -
  have e: "otherExtension notesTxt" "extensionOf notesTxt = ''txt''"
    by code_simp+
  show ?thesis
    by (simp add: e handleFileSelect_def handleDrop_def processFiles_def processFile_def
        initialCrossCheck_def crossCheckUnsupported_def)
qed

subsection \<open>Slider changes and the displayed result\<close>

text \<open>
  Every slider change clears the result, and a calculation that nothing interrupts
  displays the result of the current form data.
\<close>

lemma handleSliderChange_clears_result:
  "result (handleSliderChange field v st) = None
   \<and> formData (handleSliderChange field v st) field = v"
  by (simp add: handleSliderChange_def)

lemma handleCalculate_result_current:
  "service (formData st) = Resolved r \<Longrightarrow>
     result (handleCalculate service st) = Some r
     \<and> formData (handleCalculate service st) = formData st"
  by (simp add: handleCalculate_def handleCalculate_begin_def handleCalculate_settle_def)

text \<open>
  C10, the failing input. The user clicks Calculate with every factor at 50, moves the
  \<open>roi\<close> slider to 70 while the request is in flight, and the reply arrives: the result
  displayed is the one computed for \<open>roi = 50\<close>, while the form shows \<open>roi = 70\<close>,
  for which the service answers 70.
\<close>

theorem stale_result_after_slider_change:
  "result (view (scorerRun echoService [ClickCalculate, SliderChange roi 70, ReplyArrives])) = Some 50
   \<and> formData (view (scorerRun echoService [ClickCalculate, SliderChange roi 70, ReplyArrives])) roi = 70
   \<and> echoService (formData (view (scorerRun echoService
        [ClickCalculate, SliderChange roi 70, ReplyArrives]))) = Resolved 70"
  by (simp add: scorerRun_def initialScorer_def handleCalculate_begin_def handleSliderChange_def
      handleCalculate_settle_def echoService_def)

section \<open>Properties of the aggregator and the assembler\<close>

lemma sum_addToLargest:
  "es \<noteq> [] \<Longrightarrow> sum_list (map contribution (addToLargest r es)) = sum_list (map contribution es) + r"
proof (induction es)
  case Nil
  then show ?case by simp
next
  case (Cons e es)
  show ?case
  proof (cases "\<forall>e' \<in> set es. contribution e' \<le> contribution e")
    case True
    then show ?thesis by simp
  next
    case False
    then have "es \<noteq> []" by auto
    with Cons.IH False show ?thesis by simp
  qed
qed

lemma length_addToLargest: "length (addToLargest r es) = length es"
  by (induction es) auto

lemma addToLargest_zero: "addToLargest 0 es = es"
  by (induction es) auto

lemma validateFactors_nonempty: "validateFactors fs = Inr fs' \<Longrightarrow> fs' = fs \<and> fs \<noteq> []"
  by (auto simp: validateFactors_def factorKeys_def split: if_splits)

lemma clamp_range: "0 \<le> clamp x 0 100 \<and> clamp x 0 100 \<le> 100"
  by (simp add: clamp_def)

lemma aggregate_only_valid:
  "aggregate w fs = Inr r \<Longrightarrow> validateFactors fs = Inr fs"
  by (auto simp: aggregate_def dest: validateFactors_nonempty split: sum.splits)

lemma pinned_factors_valid: "validateFactors (factorSet 90 80 20 70 60) = Inr (factorSet 90 80 20 70 60)"
  by (simp add: validateFactors_def factorSet_def factorKeys_def)

text \<open>
  The pinned scenario of section 8 scores 64. Where the clamp is active the rounded shares
  alone do not add up to the score (here -15 against 0), and the reconciliation moves
  the residual to the largest contributor.
\<close>

lemma aggregate_pinned:
  "aggregate exampleWeights (factorSet 90 80 20 70 60)
     = Inr \<lparr> score = 64, breakdown =
         [\<lparr> entryKey = roi, entryValue = 90, contribution = 27 \<rparr>,
          \<lparr> entryKey = urgency, entryValue = 80, contribution = 20 \<rparr>,
          \<lparr> entryKey = risk, entryValue = 20, contribution = - 3 \<rparr>,
          \<lparr> entryKey = strategic_alignment, entryValue = 70, contribution = 14 \<rparr>,
          \<lparr> entryKey = resource_availability, entryValue = 60, contribution = 6 \<rparr>] \<rparr>"
  by code_simp

lemma aggregate_clamped:
  "map contribution (map (share exampleWeights) (factorSet 0 0 100 0 0)) = [0, 0, - 15, 0, 0]
   \<and> aggregate exampleWeights (factorSet 0 0 100 0 0)
     = Inr \<lparr> score = 0, breakdown =
         [\<lparr> entryKey = roi, entryValue = 0, contribution = 15 \<rparr>,
          \<lparr> entryKey = urgency, entryValue = 0, contribution = 0 \<rparr>,
          \<lparr> entryKey = risk, entryValue = 100, contribution = - 15 \<rparr>,
          \<lparr> entryKey = strategic_alignment, entryValue = 0, contribution = 0 \<rparr>,
          \<lparr> entryKey = resource_availability, entryValue = 0, contribution = 0 \<rparr>] \<rparr>"
  by code_simp

text \<open>
  C5. For every valid factor set the aggregator returns a result, and in it the
  contributions of the breakdown add up to the score exactly; the score is in [0,100].
\<close>

theorem aggregate_contributions_sum:
  "validateFactors fs = Inr fs' \<Longrightarrow>
     \<exists>r. aggregate w fs = Inr r
       \<and> sum_list (map contribution (breakdown r)) = score r
       \<and> 0 \<le> score r \<and> score r \<le> 100"
proof -
  assume v: "validateFactors fs = Inr fs'"
  then have ne: "map (share w) fs' \<noteq> []" using validateFactors_nonempty [OF v] by simp
  show ?thesis
    using v by (simp add: aggregate_def Let_def sum_addToLargest [OF ne] clamp_range)
qed

theorem aggregate_contributions_sum_witness:
  "validateFactors (factorSet 90 80 20 70 60) = Inr (factorSet 90 80 20 70 60)
   \<and> (\<exists>r. aggregate exampleWeights (factorSet 90 80 20 70 60) = Inr r
         \<and> sum_list (map contribution (breakdown r)) = score r
         \<and> 0 \<le> score r \<and> score r \<le> 100)"
  using aggregate_contributions_sum [OF pinned_factors_valid, of exampleWeights] pinned_factors_valid by simp

text \<open>Under the skip policy the collection never fails.\<close>

lemma collect_skip_total: "\<exists>es. collect SkipAndContinue w ps = Inr es"
  by (induction ps) (auto split: sum.splits)

text \<open>
  The collected entries are the valid projects of the input, in input order, each with
  the score the aggregator gives it; under the abort policy they are all the projects.
\<close>

lemma collect_in_order:
  "collect policy w ps = Inr es \<Longrightarrow>
     map entryInfo (filter (\<lambda>e. entryScore e = k) es)
       = map projectInfo.truncate (filter (\<lambda>p. projectScore w p = Some k) ps)"
proof (induction ps arbitrary: es)
  case Nil
  then show ?case by simp
next
  case (Cons p ps)
  show ?case
  proof (cases "aggregate w (factors p)")
    case (Inl e)
    then have "collect policy w ps = Inr es"
      using Cons.prems by (cases policy) simp_all
    then show ?thesis using Cons.IH Inl by (simp add: projectScore_def)
  next
    case (Inr r)
    then obtain es' where c: "collect policy w ps = Inr es'"
      and es: "es = \<lparr> entryInfo = projectInfo.truncate p, entryResult = r \<rparr> # es'"
      using Cons.prems by (auto split: sum.splits)
    show ?thesis using Cons.IH [OF c] Inr es by (simp add: projectScore_def entryScore_def)
  qed
qed

lemma collect_abort_all:
  "collect AbortAll w ps = Inr es \<Longrightarrow>
     map entryInfo es = map projectInfo.truncate ps
     \<and> map (\<lambda>e. Some (entryScore e)) es = map (projectScore w) ps"
proof (induction ps arbitrary: es)
  case Nil
  then show ?case by simp
next
  case (Cons p ps)
  from Cons.prems obtain r es' where r: "aggregate w (factors p) = Inr r"
    and c: "collect AbortAll w ps = Inr es'"
    and es: "es = \<lparr> entryInfo = projectInfo.truncate p, entryResult = r \<rparr> # es'"
    by (auto split: sum.splits)
  show ?case using Cons.IH [OF c] r es by (simp add: projectScore_def entryScore_def)
qed

text \<open>
  C4. Whenever the projects are collected (every factor set valid, or the invalid ones
  skipped), the assembler returns a BatchResult whose results are sorted non-increasing
  by score; for every score, the results with that score are the projects of the input
  with that score, in their input order (so two projects of equal score keep their
  relative input order); and \<open>totalProjects\<close> is the length of the results, which under
  the abort policy is the number of projects of the input.
\<close>

theorem assemble_ranked:
  "collect policy w ps = Inr es \<Longrightarrow>
     \<exists>b. assemble policy w ps = Inr b
       \<and> sorted_wrt (\<lambda>x y. entryScore y \<le> entryScore x) (rankedResults b)
       \<and> (\<forall>k. map entryInfo (filter (\<lambda>e. entryScore e = k) (rankedResults b))
               = map projectInfo.truncate (filter (\<lambda>p. projectScore w p = Some k) ps))
       \<and> (\<forall>k. filter (\<lambda>e. entryScore e = k) (rankedResults b) = filter (\<lambda>e. entryScore e = k) es)
       \<and> (policy = AbortAll \<longrightarrow>
             map entryInfo es = map projectInfo.truncate ps
             \<and> map (\<lambda>e. Some (entryScore e)) es = map (projectScore w) ps
             \<and> totalProjects b = length ps)
       \<and> totalProjects b = length (rankedResults b)"
proof -
  assume c: "collect policy w ps = Inr es"
  have "sorted (map (\<lambda>e. - entryScore e) (rankByScore es))"
    by (simp add: rankByScore_def)
  then have s: "sorted_wrt (\<lambda>x y. entryScore y \<le> entryScore x) (rankByScore es)"
    by (simp add: sorted_map)
  have st: "filter (\<lambda>e. entryScore e = k) (rankByScore es) = filter (\<lambda>e. entryScore e = k) es" for k
    using sort_key_stable [of "\<lambda>e. - entryScore e" "- k" es] by (simp add: rankByScore_def)
  have inp: "map entryInfo (filter (\<lambda>e. entryScore e = k) (rankByScore es))
      = map projectInfo.truncate (filter (\<lambda>p. projectScore w p = Some k) ps)" for k
    using st [of k] collect_in_order [OF c, of k] by simp
  have l: "length (rankByScore es) = length es"
    by (simp add: rankByScore_def)
  have ab: "policy = AbortAll \<longrightarrow>
             map entryInfo es = map projectInfo.truncate ps
             \<and> map (\<lambda>e. Some (entryScore e)) es = map (projectScore w) ps
             \<and> length es = length ps"
  proof
    assume "policy = AbortAll"
    then have a: "map entryInfo es = map projectInfo.truncate ps
       \<and> map (\<lambda>e. Some (entryScore e)) es = map (projectScore w) ps"
      using collect_abort_all c by blast
    then have "length es = length ps" by (metis length_map)
    with a show "map entryInfo es = map projectInfo.truncate ps
             \<and> map (\<lambda>e. Some (entryScore e)) es = map (projectScore w) ps
             \<and> length es = length ps" by blast
  qed
  show ?thesis using c s st inp l ab by (simp add: assemble_def)
qed

theorem assemble_ranked_witness:
  "(\<exists>es. collect AbortAll exampleWeights exampleBatch = Inr es \<and> map entryScore es = [55, 82, 82])
   \<and> (\<exists>b. assemble AbortAll exampleWeights exampleBatch = Inr b
         \<and> map (\<lambda>e. (projectId (entryInfo e), entryScore e)) (rankedResults b)
             = [(''B'', 82), (''C'', 82), (''A'', 55)]
         \<and> sorted_wrt (\<lambda>x y. entryScore y \<le> entryScore x) (rankedResults b)
         \<and> totalProjects b = 3)"
proof -
  let ?es = "case collect AbortAll exampleWeights exampleBatch of Inl e \<Rightarrow> [] | Inr es \<Rightarrow> es"
  have c: "collect AbortAll exampleWeights exampleBatch = Inr ?es"
    by code_simp
  have sc: "map entryScore ?es = [55, 82, 82]"
    by code_simp
  from assemble_ranked [OF c] obtain b where
    b: "assemble AbortAll exampleWeights exampleBatch = Inr b"
      "sorted_wrt (\<lambda>x y. entryScore y \<le> entryScore x) (rankedResults b)"
      "totalProjects b = length (rankedResults b)"
    by blast
  have ev: "(case assemble AbortAll exampleWeights exampleBatch of
               Inl e \<Rightarrow> []
             | Inr r \<Rightarrow> map (\<lambda>e. (projectId (entryInfo e), entryScore e)) (rankedResults r))
            = [(''B'', 82), (''C'', 82), (''A'', 55)]"
    by code_simp
  have m: "map (\<lambda>e. (projectId (entryInfo e), entryScore e)) (rankedResults b)
      = [(''B'', 82), (''C'', 82), (''A'', 55)]"
    using ev b(1) by simp
  then have "length (rankedResults b) = 3"
    using length_map [of "\<lambda>e. (projectId (entryInfo e), entryScore e)" "rankedResults b"]
    by simp
  with c sc b m show ?thesis by auto
qed

end
